theory Spec2Isabelle
  imports Main "HOL-Library.Finite_Map" "HOL-Library.Char_ord" "HOL-Library.List_Lexorder"
begin

section \<open>Severity levels\<close>

text \<open>
  \<^verbatim>\<open>type LogLevel int\<close> with the constants \<^verbatim>\<open>Emergency = iota\<close> ... \<^verbatim>\<open>Debug\<close>.
  The source only compares levels (\<^verbatim>\<open><\<close>, \<^verbatim>\<open>>\<close>, \<^verbatim>\<open><=\<close>, \<^verbatim>\<open>switch\<close>) and never
  computes with them, so no operation can wrap around and a level is modelled as an
  \<^typ>\<open>int\<close>: every value of Go's \<^verbatim>\<open>int\<close> is one, negative ones included.
\<close>

type_synonym LogLevel = int

definition Emergency :: LogLevel where "Emergency = 0"
definition Alert :: LogLevel where "Alert = 1"
definition Critical :: LogLevel where "Critical = 2"
definition Error :: LogLevel where "Error = 3"
definition Warning :: LogLevel where "Warning = 4"
definition Notice :: LogLevel where "Notice = 5"
definition Info :: LogLevel where "Info = 6"
definition Debug :: LogLevel where "Debug = 7"

text \<open>\<^verbatim>\<open>func (l LogLevel) String() string\<close>: the \<^verbatim>\<open>switch\<close>, case by case.\<close>

definition LogLevel_String :: "LogLevel \<Rightarrow> string" where
  "LogLevel_String l =
     (if l = Emergency then ''EMERGENCY''
      else if l = Alert then ''ALERT''
      else if l = Critical then ''CRITICAL''
      else if l = Error then ''ERROR''
      else if l = Warning then ''WARNING''
      else if l = Notice then ''NOTICE''
      else if l = Info then ''INFO''
      else if l = Debug then ''DEBUG''
      else ''UNKNOWN'')"

section \<open>Formats, context maps and the JSON encoder\<close>

text \<open>\<^verbatim>\<open>type LogOutput string\<close> and its two constants.\<close>

type_synonym LogOutput = string

definition StringOutput :: LogOutput where "StringOutput = ''string''"
definition JSONOutput :: LogOutput where "JSONOutput = ''json''"

text \<open>
  A value of \<^verbatim>\<open>interface{}\<close>. The logger itself only ever stores strings; the caller may
  store anything. \<open>GoChan\<close> stands for a channel, a value of a type that
  \<^verbatim>\<open>encoding/json\<close> cannot encode.
\<close>

datatype goval = GoNil | GoBool bool | GoInt int | GoString string | GoChan

text \<open>
  \<^verbatim>\<open>map[string]interface{}\<close>: a finite map. \<^verbatim>\<open>len(m)\<close> is the number of its keys. A nil map
  behaves like the empty map in every operation the logger applies to it (\<^verbatim>\<open>len\<close>,
  \<^verbatim>\<open>range\<close>), so the two are not told apart.
\<close>

type_synonym gomap = "(string, goval) fmap"

definition len :: "gomap \<Rightarrow> nat" where
  "len m = fcard (fmdom m)"

text \<open>
  \<^verbatim>\<open>json.Marshal\<close> belongs to the standard library, not to the repository: the functions
  below take it as a parameter. It returns the encoded bytes or an error; the logger drops
  the error (\<^verbatim>\<open>jsonBytes, _ := json.Marshal(...)\<close>) and converts the byte slice, which is
  nil after an error, to a string: \<open>bytes_string\<close>.
\<close>

datatype json_error = UnsupportedTypeError

type_synonym marshaller = "gomap \<Rightarrow> json_error + string"

definition bytes_string :: "json_error + string \<Rightarrow> string" where
  "bytes_string r = (case r of Inr bytes \<Rightarrow> bytes | Inl err \<Rightarrow> '''')"

section \<open>The world the logger acts on\<close>

text \<open>
  Everything outside the logger that the source reads or writes: the two standard
  streams, the clock and the file system. A path names a regular file with its contents,
  nothing yet (it can be created), or something that can neither be opened nor created (a
  directory, a path without permission). \<open>opened\<close> is the table of open file handles, one
  entry for each successful \<^verbatim>\<open>os.OpenFile\<close>. The clock is read by \<^verbatim>\<open>time.Now()\<close>: reading
  number \<open>i\<close> yields the formatted timestamp \<open>clock w i\<close>, and \<open>ticks\<close> counts the reads.
  Callers keep state of their own (a buffer, a counter) in the extension field of the
  record.
\<close>

datatype fnode = Absent | Regular string | Unopenable

record world =
  stdout :: string
  stderr :: string
  clock :: "nat \<Rightarrow> string"
  ticks :: nat
  files :: "string \<Rightarrow> fnode"
  opened :: "string list"

text \<open>\<^verbatim>\<open>time.Now().UTC().Format(time.RFC3339Nano)\<close>: one reading of the clock.\<close>

definition time_Now :: "'a world_scheme \<Rightarrow> string \<times> 'a world_scheme" where
  "time_Now w = (clock w (ticks w), w\<lparr>ticks := Suc (ticks w)\<rparr>)"

text \<open>\<^verbatim>\<open>fmt.Fprint(os.Stderr, s)\<close> and \<^verbatim>\<open>fmt.Fprint(os.Stdout, s)\<close>.\<close>

definition Fprint_Stderr :: "string \<Rightarrow> 'a world_scheme \<Rightarrow> 'a world_scheme" where
  "Fprint_Stderr s w = w\<lparr>stderr := stderr w @ s\<rparr>"

definition Fprint_Stdout :: "string \<Rightarrow> 'a world_scheme \<Rightarrow> 'a world_scheme" where
  "Fprint_Stdout s w = w\<lparr>stdout := stdout w @ s\<rparr>"

definition newline :: string where
  "newline = [CHR 0x0A]"

section \<open>Options and the logger\<close>

text \<open>
  \<^verbatim>\<open>OutputFunc\<close> and \<^verbatim>\<open>FormatFunc\<close> are Go functions with effects: they take the world and
  return it changed. A \<^verbatim>\<open>FormatFunc\<close> field may be nil (\<open>None\<close>); a nil slice of outputs is
  the empty list. Functions are taken to return: a panic inside a caller's function is not
  modelled.
\<close>

type_synonym 'a OutputFunc = "LogLevel \<Rightarrow> string \<Rightarrow> 'a world_scheme \<Rightarrow> 'a world_scheme"

type_synonym 'a FormatFunc =
  "LogLevel \<Rightarrow> string \<Rightarrow> gomap \<Rightarrow> 'a world_scheme \<Rightarrow> string \<times> 'a world_scheme"

record 'a LogOptions =
  Level :: LogLevel
  Format :: LogOutput
  FormatCallback :: "'a FormatFunc option"
  Outputs :: "'a OutputFunc list"
  Prefix :: string

record 'a Logger =
  level :: LogLevel
  format :: LogOutput
  formatCallback :: "'a FormatFunc option"
  outputs :: "'a OutputFunc list"
  prefix :: string

text \<open>\<^verbatim>\<open>defaultConsoleOutput\<close>.\<close>

definition defaultConsoleOutput :: "'a OutputFunc" where
  "defaultConsoleOutput lvl message w =
     (if lvl \<le> Error then Fprint_Stderr (message @ newline) w
      else Fprint_Stdout (message @ newline) w)"

text \<open>\<^verbatim>\<open>NewLogger\<close>: the fields are copied, then the three defaults are applied in turn.\<close>

definition NewLogger :: "'a LogOptions \<Rightarrow> 'a Logger" where
  "NewLogger options =
     (let logger = \<lparr>level = Level options, format = Format options,
                    formatCallback = FormatCallback options, outputs = Outputs options,
                    prefix = Prefix options\<rparr>;
          logger = (if level logger < Emergency \<or> level logger > Debug
                    then logger\<lparr>level := Info\<rparr> else logger);
          logger = (if format logger = '''' then logger\<lparr>format := StringOutput\<rparr> else logger);
          logger = (if length (outputs logger) = 0
                    then logger\<lparr>outputs := [defaultConsoleOutput]\<rparr> else logger)
      in logger)"

text \<open>
  \<^verbatim>\<open>formatMessage\<close>. \<^verbatim>\<open>fmt.Sprintf\<close> with \<^verbatim>\<open>%s\<close> verbs and string arguments concatenates.
  The \<^verbatim>\<open>range\<close> loop stores every entry of the context into \<open>logData\<close>; the keys of a map
  are distinct, so in whatever order the loop runs the result is \<open>logData\<close> overridden by
  the context.
\<close>

definition formatMessage ::
  "marshaller \<Rightarrow> 'a Logger \<Rightarrow> LogLevel \<Rightarrow> string \<Rightarrow> gomap \<Rightarrow> 'a world_scheme \<Rightarrow>
   string \<times> 'a world_scheme" where
  "formatMessage marshal l lvl message additionalInfo w =
     (case formatCallback l of
        Some callback \<Rightarrow> callback lvl message additionalInfo w
      | None \<Rightarrow>
          (let (timestamp, w') = time_Now w;
               logLevel = LogLevel_String lvl
           in if format l = JSONOutput then
                (let logData = fmupd ''message'' (GoString message)
                                 (fmupd ''level'' (GoString logLevel)
                                   (fmupd ''timestamp'' (GoString timestamp) fmempty));
                     logData = (if prefix l \<noteq> ''''
                                then fmupd ''prefix'' (GoString (prefix l)) logData
                                else logData);
                     logData = logData ++\<^sub>f additionalInfo
                 in (bytes_string (marshal logData), w'))
              else
                (let baseMessage =
                       (if prefix l \<noteq> ''''
                        then ''['' @ prefix l @ ''] ['' @ timestamp @ ''] ['' @ logLevel @ '']''
                        else ''['' @ timestamp @ ''] ['' @ logLevel @ '']'');
                     baseMessage =
                       (if len additionalInfo > 0
                        then baseMessage @ '' '' @ bytes_string (marshal additionalInfo)
                        else baseMessage)
                 in (baseMessage @ '' '' @ message, w'))))"

text \<open>\<^verbatim>\<open>shouldLog\<close>.\<close>

definition shouldLog :: "'a Logger \<Rightarrow> LogLevel \<Rightarrow> bool" where
  "shouldLog l lvl \<longleftrightarrow> lvl \<le> level l"

text \<open>\<^verbatim>\<open>outputMessage\<close>: the loop over \<^verbatim>\<open>l.outputs\<close>, front to back.\<close>

fun run_outputs :: "'a OutputFunc list \<Rightarrow> 'a OutputFunc" where
  "run_outputs [] lvl message w = w"
| "run_outputs (output # rest) lvl message w = run_outputs rest lvl message (output lvl message w)"

definition outputMessage :: "'a Logger \<Rightarrow> 'a OutputFunc" where
  "outputMessage l lvl message w = run_outputs (outputs l) lvl message w"

text \<open>
  \<^verbatim>\<open>Log\<close>. The variadic parameter is the list of the maps passed; only the first is used,
  and a fresh empty map stands in when there is none (\<open>first_info\<close>, the \<^verbatim>\<open>if\<close> that sets
  \<^verbatim>\<open>info\<close>).
\<close>

definition first_info :: "gomap list \<Rightarrow> gomap" where
  "first_info additionalInfo =
     (if length additionalInfo > 0 then additionalInfo ! 0 else fmempty)"

definition Log ::
  "marshaller \<Rightarrow> 'a Logger \<Rightarrow> LogLevel \<Rightarrow> string \<Rightarrow> gomap list \<Rightarrow> 'a world_scheme \<Rightarrow>
   'a world_scheme" where
  "Log marshal l lvl message additionalInfo w =
     (if shouldLog l lvl then
        (let info = first_info additionalInfo;
             (formattedMessage, w') = formatMessage marshal l lvl message info w
         in outputMessage l lvl formattedMessage w')
      else w)"

section \<open>Output sinks\<close>

text \<open>\<^verbatim>\<open>ConsoleOutput\<close>. \<^verbatim>\<open>fmt.Fprintln(f, message)\<close> writes the message and a newline.\<close>

definition ConsoleOutput :: "'a OutputFunc" where
  "ConsoleOutput lvl message w =
     (if lvl \<le> Error then Fprint_Stderr (message @ newline) w
      else Fprint_Stdout (message @ newline) w)"

text \<open>
  \<^verbatim>\<open>os.OpenFile(filename, os.O_CREATE|os.O_WRONLY|os.O_APPEND, 0666)\<close>: a path that can
  neither be opened nor created gives an error and changes nothing; a missing file is
  created empty; on success the handle enters the table of open files. The handle names
  the file it was opened on.
\<close>

datatype os_error = PathError string

type_synonym os_File = string

definition os_OpenFile_append ::
  "string \<Rightarrow> 'a world_scheme \<Rightarrow> (os_error + os_File) \<times> 'a world_scheme" where
  "os_OpenFile_append filename w =
     (case files w filename of
        Unopenable \<Rightarrow> (Inl (PathError filename), w)
      | Absent \<Rightarrow> (Inr filename,
                   w\<lparr>files := (files w)(filename := Regular ''''),
                     opened := opened w @ [filename]\<rparr>)
      | Regular contents \<Rightarrow> (Inr filename, w\<lparr>opened := opened w @ [filename]\<rparr>))"

text \<open>
  \<^verbatim>\<open>fmt.Fprintln(file, message)\<close> on a handle opened with \<^verbatim>\<open>O_APPEND\<close>: the bytes go to the
  end of the file. The source ignores the result of the write, so a write that fails
  (the file is no longer there) leaves the world as it was.
\<close>

definition Fprintln_File :: "os_File \<Rightarrow> string \<Rightarrow> 'a world_scheme \<Rightarrow> 'a world_scheme" where
  "Fprintln_File file message w =
     (case files w file of
        Regular contents \<Rightarrow> w\<lparr>files := (files w)(file := Regular (contents @ message @ newline))\<rparr>
      | _ \<Rightarrow> w)"

text \<open>\<^verbatim>\<open>FileOutput\<close>: \<^verbatim>\<open>fmt.Errorf("failed to open log file %s: %w", filename, err)\<close> wraps the error.\<close>

datatype logger_error = FailedToOpenLogFile string os_error

definition FileOutput ::
  "string \<Rightarrow> 'a world_scheme \<Rightarrow> (logger_error + 'a OutputFunc) \<times> 'a world_scheme" where
  "FileOutput filename w =
     (case os_OpenFile_append filename w of
        (Inl err, w') \<Rightarrow> (Inl (FailedToOpenLogFile filename err), w')
      | (Inr file, w') \<Rightarrow> (Inr (\<lambda>lvl message. Fprintln_File file message), w'))"

text \<open>\<^verbatim>\<open>MultiOutput\<close>: the same loop as \<^verbatim>\<open>outputMessage\<close>, over the wrapped outputs.\<close>

definition MultiOutput :: "'a OutputFunc list \<Rightarrow> 'a OutputFunc" where
  "MultiOutput outs lvl message w = run_outputs outs lvl message w"

text \<open>\<^verbatim>\<open>LevelFilterOutput\<close>.\<close>

definition LevelFilterOutput :: "LogLevel \<Rightarrow> 'a OutputFunc \<Rightarrow> 'a OutputFunc" where
  "LevelFilterOutput minLevel output lvl message w =
     (if lvl \<le> minLevel then output lvl message w else w)"

section \<open>Recording doubles\<close>

text \<open>
  The repository's tests observe the logger through an output that appends what it
  receives to a buffer. The same device here: the extension field of the world is a list
  of events; output number \<open>i\<close> records each call made to it with the level and the string
  it was given, and a recording formatter records each call made to it and returns what
  the function \<open>f\<close> computes.
\<close>

datatype event = Formatted LogLevel string gomap | Sunk nat LogLevel string

definition recording_output :: "nat \<Rightarrow> event list OutputFunc" where
  "recording_output i lvl message w = world.more_update (\<lambda>events. events @ [Sunk i lvl message]) w"

definition recording_format ::
  "(LogLevel \<Rightarrow> string \<Rightarrow> gomap \<Rightarrow> string) \<Rightarrow> event list FormatFunc" where
  "recording_format f lvl message info w =
     (f lvl message info, world.more_update (\<lambda>events. events @ [Formatted lvl message info]) w)"

definition recorders :: "nat \<Rightarrow> event list OutputFunc list" where
  "recorders n = map recording_output [0..<n]"

definition sunk_by_all :: "nat \<Rightarrow> LogLevel \<Rightarrow> string \<Rightarrow> event list" where
  "sunk_by_all n lvl message = map (\<lambda>i. Sunk i lvl message) [0..<n]"

text \<open>
  A world to start from: nothing written yet, no file, one path that can neither be opened
  nor created, and the clock at a fixed instant.
\<close>

definition world0 :: "event list world_scheme" where
  "world0 = \<lparr>stdout = '''', stderr = '''', clock = (\<lambda>i. ''2024-05-06T07:08:09.000000001Z''),
             ticks = 0, files = (\<lambda>path. if path = ''/proc/log'' then Unopenable else Absent),
             opened = [], \<dots> = []\<rparr>"

section \<open>An instance of the JSON encoder\<close>

text \<open>
  What \<^verbatim>\<open>json.Marshal\<close> does on a map from strings to the values above: an object with the
  keys in sorted order, integers in decimal, and an error for a value of an unsupported
  type. How a string becomes a JSON string literal (which characters are escaped) is left
  to the parameter \<open>quote\<close>; \<open>plain_quote\<close> is the literal of a string that needs no
  escaping.
\<close>

fun decimal :: "nat \<Rightarrow> string" where
  "decimal n = (if n < 10 then [char_of (48 + n)] else decimal (n div 10) @ [char_of (48 + n mod 10)])"

definition itoa :: "int \<Rightarrow> string" where
  "itoa i = (if i < 0 then ''-'' @ decimal (nat (- i)) else decimal (nat i))"

fun encode_value :: "(string \<Rightarrow> string) \<Rightarrow> goval \<Rightarrow> json_error + string" where
  "encode_value quote GoNil = Inr ''null''"
| "encode_value quote (GoBool b) = Inr (if b then ''true'' else ''false'')"
| "encode_value quote (GoInt i) = Inr (itoa i)"
| "encode_value quote (GoString s) = Inr (quote s)"
| "encode_value quote GoChan = Inl UnsupportedTypeError"

fun encode_entries :: "(string \<Rightarrow> string) \<Rightarrow> (string \<times> goval) list \<Rightarrow> json_error + string list" where
  "encode_entries quote [] = Inr []"
| "encode_entries quote ((k, v) # rest) =
     (case encode_value quote v of
        Inl err \<Rightarrow> Inl err
      | Inr s \<Rightarrow> (case encode_entries quote rest of
                    Inl err \<Rightarrow> Inl err
                  | Inr ss \<Rightarrow> Inr ((quote k @ '':'' @ s) # ss)))"

fun join :: "string \<Rightarrow> string list \<Rightarrow> string" where
  "join sep [] = ''''"
| "join sep [s] = s"
| "join sep (s # t # rest) = s @ sep @ join sep (t # rest)"

definition sorted_entries :: "gomap \<Rightarrow> (string \<times> goval) list" where
  "sorted_entries m =
     List.map_filter (\<lambda>k. map_option (Pair k) (fmlookup m k)) (sorted_list_of_fset (fmdom m))"

definition json_Marshal :: "(string \<Rightarrow> string) \<Rightarrow> marshaller" where
  "json_Marshal quote m =
     (case encode_entries quote (sorted_entries m) of
        Inl err \<Rightarrow> Inl err
      | Inr ss \<Rightarrow> Inr (''{'' @ join '','' ss @ ''}''))"

definition plain_quote :: "string \<Rightarrow> string" where
  "plain_quote s = [CHR 0x22] @ s @ [CHR 0x22]"

section \<open>Sequences of calls, sample inputs and the spec's text line\<close>

text \<open>A sink that is called several times: the calls are made one after the other.\<close>

definition feed ::
  "'a OutputFunc \<Rightarrow> (LogLevel \<times> string) list \<Rightarrow> 'a world_scheme \<Rightarrow> 'a world_scheme" where
  "feed output calls w = fold (\<lambda>(lvl, message). output lvl message) calls w"

text \<open>
  Sample inputs: the context maps \<^verbatim>\<open>{"code": 500}\<close>, \<^verbatim>\<open>{"ch": make(chan int)}\<close> and
  \<^verbatim>\<open>{"k": "v"}\<close>; the
  logger of the spec's first scenario (threshold Error, text mode, prefix \<^verbatim>\<open>svc\<close>) and of
  its second (JSON mode, no prefix); the logger of \<^verbatim>\<open>TestCustomFormatCallback\<close>; and the
  options \<^verbatim>\<open>LogOptions{}\<close>, in which no field is set. Each logger writes to two recording
  outputs.
\<close>

definition code500 :: gomap where
  "code500 = fmupd ''code'' (GoInt 500) fmempty"

definition chan_info :: gomap where
  "chan_info = fmupd ''ch'' GoChan fmempty"

definition kv_info :: gomap where
  "kv_info = fmupd ''k'' (GoString ''v'') fmempty"

definition svc_options :: "event list LogOptions" where
  "svc_options = \<lparr>Level = Error, Format = StringOutput, FormatCallback = None,
                  Outputs = recorders 2, Prefix = ''svc''\<rparr>"

definition json_options :: "event list LogOptions" where
  "json_options = \<lparr>Level = Debug, Format = JSONOutput, FormatCallback = None,
                   Outputs = recorders 2, Prefix = ''''\<rparr>"

definition custom_text :: "LogLevel \<Rightarrow> string \<Rightarrow> gomap \<Rightarrow> string" where
  "custom_text lvl message info = ''CUSTOM: '' @ message"

definition custom_options :: "event list LogOptions" where
  "custom_options = \<lparr>Level = Debug, Format = '''',
                     FormatCallback = Some (recording_format custom_text),
                     Outputs = recorders 2, Prefix = ''''\<rparr>"

definition zero_options :: "event list LogOptions" where
  "zero_options = \<lparr>Level = 0, Format = '''', FormatCallback = None, Outputs = [], Prefix = ''''\<rparr>"

text \<open>
  The text line in the spec's words, \<^verbatim>\<open>[prefix] [timestamp] [LEVEL] [context-json] message\<close>:
  every segment but the message in square brackets, the prefix segment and the context
  segment present only when there is a prefix and a context.
\<close>

definition spec_text_line :: "string \<Rightarrow> string \<Rightarrow> string \<Rightarrow> string option \<Rightarrow> string \<Rightarrow> string" where
  "spec_text_line pfx timestamp levelname context_json message =
     (if pfx = '''' then '''' else ''['' @ pfx @ ''] '') @
     ''['' @ timestamp @ ''] '' @
     ''['' @ levelname @ ''] '' @
     (case context_json of None \<Rightarrow> '''' | Some json \<Rightarrow> ''['' @ json @ ''] '') @
     message"

text \<open>
  The fixed fields of the JSON object in the spec's words: \<^verbatim>\<open>timestamp\<close>, \<^verbatim>\<open>level\<close> (the level
  name), \<^verbatim>\<open>message\<close>, and \<^verbatim>\<open>prefix\<close>, omitted if empty.
\<close>

definition fixed_field ::
  "'a Logger \<Rightarrow> string \<Rightarrow> LogLevel \<Rightarrow> string \<Rightarrow> string \<Rightarrow> goval option" where
  "fixed_field l timestamp lvl message k =
     (if k = ''timestamp'' then Some (GoString timestamp)
      else if k = ''level'' then Some (GoString (LogLevel_String lvl))
      else if k = ''message'' then Some (GoString message)
      else if k = ''prefix'' \<and> prefix l \<noteq> '''' then Some (GoString (prefix l))
      else None)"

text \<open>An output uses a level name when the name occurs in it.\<close>

fun starts_with :: "string \<Rightarrow> string \<Rightarrow> bool" where
  "starts_with [] s = True"
| "starts_with (c # sub) [] = False"
| "starts_with (c # sub) (d # s) = (c = d \<and> starts_with sub s)"

fun occurs_in :: "string \<Rightarrow> string \<Rightarrow> bool" where
  "occurs_in sub [] = (sub = [])"
| "occurs_in sub (c # s) = (starts_with sub (c # s) \<or> occurs_in sub s)"

text \<open>The text of a JSON object starts with an opening brace and ends with a closing one.\<close>

definition braced :: "string \<Rightarrow> bool" where
  "braced s \<longleftrightarrow> length s \<ge> 2 \<and> hd s = CHR ''{'' \<and> last s = CHR ''}''"

section \<open>Basic facts\<close>

lemmas level_defs =
  Emergency_def Alert_def Critical_def Error_def Warning_def Notice_def Info_def Debug_def

lemma run_outputs_fold:
  "run_outputs outs lvl message w = fold (\<lambda>output. output lvl message) outs w"
  by (induction outs arbitrary: w) simp_all

lemma run_outputs_append:
  "run_outputs (xs @ ys) lvl message w = run_outputs ys lvl message (run_outputs xs lvl message w)"
  by (simp add: run_outputs_fold)

lemma recorders_Suc: "recorders (Suc n) = recorders n @ [recording_output n]"
  by (simp add: recorders_def)

lemma recorders_nonempty: "recorders (Suc n) \<noteq> []"
  by (simp add: recorders_def)

lemma sunk_by_all_Suc:
  "sunk_by_all (Suc n) lvl message = sunk_by_all n lvl message @ [Sunk n lvl message]"
  by (simp add: sunk_by_all_def)

text \<open>The recording outputs \<open>0\<close> to \<open>n - 1\<close>, run in a row, add one event each, in that order.\<close>

lemma run_recorders:
  "run_outputs (recorders n) lvl message w =
     world.more_update (\<lambda>events. events @ sunk_by_all n lvl message) w"
proof (induction n)
  case 0
  show ?case by (simp add: recorders_def sunk_by_all_def)
next
  case (Suc n)
  show ?case
    by (simp add: recorders_Suc sunk_by_all_Suc run_outputs_append Suc recording_output_def)
qed

text \<open>The built-in formats read the clock once and touch nothing else.\<close>

lemma builtin_format_world:
  "formatCallback l = None \<Longrightarrow>
     snd (formatMessage marshal l lvl message info w) = w\<lparr>ticks := Suc (ticks w)\<rparr>"
  by (simp add: formatMessage_def time_Now_def Let_def)

lemma custom_format:
  "formatCallback l = Some callback \<Longrightarrow>
     formatMessage marshal l lvl message info w = callback lvl message info w"
  by (simp add: formatMessage_def)

lemma Log_unfold:
  "Log marshal l lvl message ctx w =
     (if lvl \<le> level l
      then run_outputs (outputs l) lvl
             (fst (formatMessage marshal l lvl message (first_info ctx) w))
             (snd (formatMessage marshal l lvl message (first_info ctx) w))
      else w)"
  by (simp add: Log_def shouldLog_def outputMessage_def Let_def split: prod.splits)

lemma NewLogger_level:
  "level (NewLogger options) =
     (if Level options < 0 \<or> 7 < Level options then Info else Level options)"
  by (simp add: NewLogger_def Let_def level_defs)

lemma NewLogger_format:
  "format (NewLogger options) = (if Format options = '''' then StringOutput else Format options)"
  by (simp add: NewLogger_def Let_def)

lemma NewLogger_outputs:
  "outputs (NewLogger options) =
     (if Outputs options = [] then [defaultConsoleOutput] else Outputs options)"
  by (simp add: NewLogger_def Let_def)

lemma NewLogger_formatCallback: "formatCallback (NewLogger options) = FormatCallback options"
  by (simp add: NewLogger_def Let_def)

lemma NewLogger_prefix: "prefix (NewLogger options) = Prefix options"
  by (simp add: NewLogger_def Let_def)

lemma fmdom_fempty_iff: "fmdom m = {||} \<longleftrightarrow> m = fmempty"
  by (metis fmdom_empty fmrestrict_fset_dom fmrestrict_fset_null)

lemma len_pos_iff: "0 < len m \<longleftrightarrow> m \<noteq> fmempty"
proof -
  have "len m = 0 \<longleftrightarrow> fmdom m = {||}"
    by (simp add: len_def fcard_0_eq)
  then show ?thesis
    using fmdom_fempty_iff [of m] by arith
qed

lemma unknown_name: "lvl < 0 \<Longrightarrow> LogLevel_String lvl = ''UNKNOWN''"
  by (simp add: LogLevel_String_def level_defs)

text \<open>The text line that the built-in text format builds.\<close>

lemma builtin_text_line:
  assumes "formatCallback l = None" and "format l \<noteq> JSONOutput"
  shows "fst (formatMessage marshal l lvl message info w) =
     (if prefix l = '''' then '''' else ''['' @ prefix l @ ''] '') @
     ''['' @ clock w (ticks w) @ ''] '' @ ''['' @ LogLevel_String lvl @ '']'' @
     (if info = fmempty then '''' else '' '' @ bytes_string (marshal info)) @
     '' '' @ message"
  using assms by (simp add: formatMessage_def time_Now_def Let_def len_pos_iff)

text \<open>The map that the built-in JSON format hands to the encoder.\<close>

lemma builtin_json_fields:
  assumes "formatCallback l = None" and "format l = JSONOutput"
  shows "\<exists>fields.
     fst (formatMessage marshal l lvl message info w) = bytes_string (marshal fields) \<and>
     (\<forall>k. fmlookup fields k =
        (case fmlookup info k of
           Some v \<Rightarrow> Some v
         | None \<Rightarrow> fixed_field l (clock w (ticks w)) lvl message k))"
proof -
  let ?base = "fmupd ''message'' (GoString message)
                 (fmupd ''level'' (GoString (LogLevel_String lvl))
                   (fmupd ''timestamp'' (GoString (clock w (ticks w))) fmempty))"
  let ?fields = "(if prefix l \<noteq> '''' then fmupd ''prefix'' (GoString (prefix l)) ?base else ?base)
                   ++\<^sub>f info"
  have out: "fst (formatMessage marshal l lvl message info w) = bytes_string (marshal ?fields)"
    using assms by (simp add: formatMessage_def time_Now_def Let_def)
  have look: "fmlookup ?fields k =
        (case fmlookup info k of
           Some v \<Rightarrow> Some v
         | None \<Rightarrow> fixed_field l (clock w (ticks w)) lvl message k)" for k
    by (cases "fmlookup info k") (auto simp: fixed_field_def fmlookup_dom_iff)
  show ?thesis
    using out look by blast
qed

text \<open>The sample loggers and what the encoder instance yields on the sample maps.\<close>

lemma svc_logger:
  "NewLogger svc_options = \<lparr>level = Error, format = StringOutput, formatCallback = None,
      outputs = recorders 2, prefix = ''svc''\<rparr>"
  by (simp add: NewLogger_def svc_options_def Let_def level_defs recorders_def StringOutput_def)

lemma json_logger:
  "NewLogger json_options = \<lparr>level = Debug, format = JSONOutput, formatCallback = None,
      outputs = recorders 2, prefix = ''''\<rparr>"
  by (simp add: NewLogger_def json_options_def Let_def level_defs recorders_def JSONOutput_def)

lemma custom_logger:
  "NewLogger custom_options = \<lparr>level = Debug, format = StringOutput,
      formatCallback = Some (recording_format custom_text), outputs = recorders 2, prefix = ''''\<rparr>"
  by (simp add: NewLogger_def custom_options_def Let_def level_defs recorders_def)

lemma marshal_code500:
  "json_Marshal plain_quote code500 = Inr (''{'' @ plain_quote ''code'' @ '':500}'')"
  by code_simp

lemma code500_nonempty: "code500 \<noteq> fmempty"
  by (metis code500_def fmdom_fempty_iff fmdom_fmupd finsert_not_fempty)

lemma svc_line:
  "fst (formatMessage (json_Marshal plain_quote) (NewLogger svc_options) Error ''y'' code500 world0) =
     ''[svc] [2024-05-06T07:08:09.000000001Z] [ERROR] {'' @ plain_quote ''code'' @ '':500} y''"
  using code500_nonempty
  by (simp add: builtin_text_line svc_logger StringOutput_def JSONOutput_def marshal_code500
      bytes_string_def world0_def LogLevel_String_def level_defs)

lemma svc_unknown_line:
  "fst (formatMessage (json_Marshal plain_quote) (NewLogger svc_options) (- 1) ''y'' fmempty world0) =
     ''[svc] [2024-05-06T07:08:09.000000001Z] [UNKNOWN] y''"
  by (simp add: builtin_text_line svc_logger StringOutput_def JSONOutput_def
      world0_def unknown_name)

lemma json_kv_line:
  "fst (formatMessage (json_Marshal plain_quote) (NewLogger json_options) Info ''hello'' kv_info world0) =
     ''{'' @ plain_quote ''k'' @ '':'' @ plain_quote ''v'' @ '','' @
     plain_quote ''level'' @ '':'' @ plain_quote ''INFO'' @ '','' @
     plain_quote ''message'' @ '':'' @ plain_quote ''hello'' @ '','' @
     plain_quote ''timestamp'' @ '':'' @ plain_quote ''2024-05-06T07:08:09.000000001Z'' @ ''}''"
  by code_simp

lemma json_chan_line:
  "fst (formatMessage (json_Marshal plain_quote) (NewLogger json_options) Info ''hello'' chan_info world0) = ''''"
  by code_simp

section \<open>The claims\<close>

text \<open>
  C1. For every level and every logger threshold, \<^verbatim>\<open>Log\<close> emits, that is, invokes the
  configured sinks, if and only if the level is numerically less than or equal to the
  threshold. \<open>shouldLog\<close> is that comparison; and on a logger that writes to \<open>n > 0\<close>
  recording outputs, started with an empty record, a call of a sink at this level is on
  record after \<^verbatim>\<open>Log\<close> exactly when the level is at most the threshold.
\<close>

theorem log_emits_iff_level_le_threshold:
  assumes "outputs l = recorders n" and "0 < n" and "world.more w = []"
  shows "shouldLog l lvl = (lvl \<le> level l) \<and>
         (lvl \<le> level l) =
           (\<exists>i s. Sunk i lvl s \<in> set (world.more (Log marshal l lvl message ctx w)))"
proof -
  have "Sunk 0 lvl s \<in> set (sunk_by_all n lvl s)" for s
    using assms(2) by (auto simp: sunk_by_all_def)
  then show ?thesis
    using assms(1,3) by (auto simp: shouldLog_def Log_unfold run_recorders)
qed

text \<open>
  C1, at the logger of the spec's scenario (threshold Error): a Critical message reaches
  the sinks, a Debug message does not.
\<close>

theorem log_emits_iff_level_le_threshold_witness:
  "outputs (NewLogger svc_options) = recorders 2 \<and> (0::nat) < 2 \<and> world.more world0 = [] \<and>
   shouldLog (NewLogger svc_options) Critical \<and>
   (\<exists>i s. Sunk i Critical s \<in> set (world.more
      (Log (json_Marshal plain_quote) (NewLogger svc_options) Critical ''y'' [code500] world0))) \<and>
   \<not> shouldLog (NewLogger svc_options) Debug \<and>
   \<not> (\<exists>i s. Sunk i Debug s \<in> set (world.more
      (Log (json_Marshal plain_quote) (NewLogger svc_options) Debug ''x'' [] world0)))"
proof -
  have outs: "outputs (NewLogger svc_options) = recorders 2"
    by (simp add: svc_logger)
  have two: "(0::nat) < 2"
    by simp
  have empty: "world.more world0 = []"
    by (simp add: world0_def)
  have lvl: "level (NewLogger svc_options) = 3"
    by (simp add: svc_logger Error_def)
  show ?thesis
    using log_emits_iff_level_le_threshold [OF outs two empty, of Critical "json_Marshal plain_quote" "''y''" "[code500]"]
      log_emits_iff_level_le_threshold [OF outs two empty, of Debug "json_Marshal plain_quote" "''x''" "[]"]
      outs empty lvl
    by (simp add: Critical_def Debug_def)
qed

text \<open>
  C2. For every call \<^verbatim>\<open>Log(level, message, context)\<close>: if the level is filtered out, the
  call returns with the world as it was (nothing is formatted, no sink is invoked);
  otherwise the message is formatted once and every configured sink is invoked in list
  order with that one formatted string and the original level. With a recording formatter
  and recording outputs the record grows by one formatter call followed by one call of
  each output, in order; with the built-in formats the clock is read exactly once.
\<close>

theorem log_formats_once_then_runs_outputs_in_order:
  "(\<not> shouldLog l lvl \<longrightarrow> Log marshal l lvl message ctx w = w) \<and>
   (shouldLog l lvl \<longrightarrow>
      Log marshal l lvl message ctx w =
        fold (\<lambda>output. output lvl (fst (formatMessage marshal l lvl message (first_info ctx) w)))
          (outputs l) (snd (formatMessage marshal l lvl message (first_info ctx) w))) \<and>
   (outputs r = recorders n \<longrightarrow> formatCallback r = Some (recording_format f) \<longrightarrow>
      Log marshal r lvl message ctx v =
        (if shouldLog r lvl
         then world.more_update
                (\<lambda>events. events @ Formatted lvl message (first_info ctx) #
                   sunk_by_all n lvl (f lvl message (first_info ctx))) v
         else v)) \<and>
   (outputs r = recorders n \<longrightarrow> formatCallback r = None \<longrightarrow>
      Log marshal r lvl message ctx v =
        (if shouldLog r lvl
         then world.more_update
                (\<lambda>events. events @
                   sunk_by_all n lvl (fst (formatMessage marshal r lvl message (first_info ctx) v)))
                (v\<lparr>ticks := Suc (ticks v)\<rparr>)
         else v))"
  by (simp add: shouldLog_def Log_unfold run_outputs_fold [symmetric] run_recorders
      builtin_format_world custom_format recording_format_def)

text \<open>
  C2, at the sample loggers: a Debug message under threshold Error leaves the world as it
  was; an Error message is formatted with one reading of the clock and both outputs
  receive the same line, in order; with the recording formatter the record shows one
  formatter call and then the two outputs.
\<close>

theorem log_formats_once_then_runs_outputs_in_order_witness:
  "\<not> shouldLog (NewLogger svc_options) Debug \<and>
   Log (json_Marshal plain_quote) (NewLogger svc_options) Debug ''x'' [] world0 = world0 \<and>
   shouldLog (NewLogger svc_options) Error \<and>
   outputs (NewLogger svc_options) = recorders 2 \<and>
   formatCallback (NewLogger svc_options) = None \<and>
   world.more (Log (json_Marshal plain_quote) (NewLogger svc_options) Error ''y'' [code500] world0) =
     [Sunk 0 Error (''[svc] [2024-05-06T07:08:09.000000001Z] [ERROR] {'' @ plain_quote ''code'' @ '':500} y''),
      Sunk 1 Error (''[svc] [2024-05-06T07:08:09.000000001Z] [ERROR] {'' @ plain_quote ''code'' @ '':500} y'')] \<and>
   ticks (Log (json_Marshal plain_quote) (NewLogger svc_options) Error ''y'' [code500] world0) = 1 \<and>
   outputs (NewLogger custom_options) = recorders 2 \<and>
   formatCallback (NewLogger custom_options) = Some (recording_format custom_text) \<and>
   world.more (Log (json_Marshal plain_quote) (NewLogger custom_options) Info ''test message'' [] world0) =
     [Formatted Info ''test message'' fmempty,
      Sunk 0 Info ''CUSTOM: test message'', Sunk 1 Info ''CUSTOM: test message'']"
proof -
  have svc: "outputs (NewLogger svc_options) = recorders 2"
      "formatCallback (NewLogger svc_options) = None" "level (NewLogger svc_options) = 3"
    by (simp_all add: svc_logger Error_def)
  have custom: "outputs (NewLogger custom_options) = recorders 2"
      "formatCallback (NewLogger custom_options) = Some (recording_format custom_text)"
      "level (NewLogger custom_options) = 7"
    by (simp_all add: custom_logger Debug_def)
  have filtered: "Log (json_Marshal plain_quote) (NewLogger svc_options) Debug ''x'' [] world0 = world0"
    using log_formats_once_then_runs_outputs_in_order
      [where l = "NewLogger svc_options" and lvl = Debug and marshal = "json_Marshal plain_quote"
         and message = "''x''" and ctx = "[]" and w = world0, THEN conjunct1]
    by (simp add: shouldLog_def svc Debug_def)
  have emitted: "Log (json_Marshal plain_quote) (NewLogger svc_options) Error ''y'' [code500] world0 =
      world.more_update (\<lambda>events. events @ sunk_by_all 2 Error
        (fst (formatMessage (json_Marshal plain_quote) (NewLogger svc_options) Error ''y'' code500 world0)))
        (world0\<lparr>ticks := Suc (ticks world0)\<rparr>)"
    using log_formats_once_then_runs_outputs_in_order
      [where l = "NewLogger svc_options" and w = world0
         and r = "NewLogger svc_options" and n = 2 and lvl = Error
         and marshal = "json_Marshal plain_quote" and message = "''y''" and ctx = "[code500]"
         and v = world0, THEN conjunct2, THEN conjunct2, THEN conjunct2]
    by (simp add: shouldLog_def svc Error_def first_info_def)
  have recorded: "Log (json_Marshal plain_quote) (NewLogger custom_options) Info ''test message'' [] world0 =
      world.more_update (\<lambda>events. events @ Formatted Info ''test message'' fmempty #
        sunk_by_all 2 Info (custom_text Info ''test message'' fmempty)) world0"
    using log_formats_once_then_runs_outputs_in_order
      [where l = "NewLogger custom_options" and w = world0
         and r = "NewLogger custom_options" and n = 2 and f = custom_text and lvl = Info
         and marshal = "json_Marshal plain_quote" and message = "''test message''" and ctx = "[]"
         and v = world0, THEN conjunct2, THEN conjunct2, THEN conjunct1]
    by (simp add: shouldLog_def custom Info_def first_info_def)
  have two: "sunk_by_all 2 lvl s = [Sunk 0 lvl s, Sunk 1 lvl s]" for lvl s
    by (simp add: sunk_by_all_def numeral_2_eq_2)
  have start: "world.more world0 = []" "ticks world0 = 0"
    by (simp_all add: world0_def)
  have below: "\<not> shouldLog (NewLogger svc_options) Debug"
    by (simp add: shouldLog_def svc Debug_def)
  have above: "shouldLog (NewLogger svc_options) Error"
    by (simp add: shouldLog_def svc Error_def)
  have lines: "world.more (Log (json_Marshal plain_quote) (NewLogger svc_options) Error ''y'' [code500] world0) =
     [Sunk 0 Error (''[svc] [2024-05-06T07:08:09.000000001Z] [ERROR] {'' @ plain_quote ''code'' @ '':500} y''),
      Sunk 1 Error (''[svc] [2024-05-06T07:08:09.000000001Z] [ERROR] {'' @ plain_quote ''code'' @ '':500} y'')]"
    by (simp add: emitted two svc_line start)
  have once: "ticks (Log (json_Marshal plain_quote) (NewLogger svc_options) Error ''y'' [code500] world0) = 1"
    by (simp add: emitted start)
  have events: "world.more (Log (json_Marshal plain_quote) (NewLogger custom_options) Info ''test message'' [] world0) =
     [Formatted Info ''test message'' fmempty,
      Sunk 0 Info ''CUSTOM: test message'', Sunk 1 Info ''CUSTOM: test message'']"
    by (simp add: recorded two custom_text_def start)
  show ?thesis
    by (intro conjI) (fact below filtered above svc(1) svc(2) lines once custom(1) custom(2) events)+
qed

text \<open>
  C3 (as amended). At construction a minimum level outside Emergency..Debug is replaced by
  Info; an unset (empty) format is replaced by text (string) mode; an empty sink list is
  replaced by the single default console sink, which writes the message and a newline to
  standard-error for a level whose ordinal is at most that of Error (Emergency through
  Error, and any level below Emergency) and to standard-output for any other level. The
  theorem also records what construction leaves as given: a level inside the range, a
  non-empty format, a non-empty sink list, the callback and the prefix.
\<close>

theorem NewLogger_applies_defaults:
  "level (NewLogger options) =
     (if Level options < Emergency \<or> Debug < Level options then Info else Level options) \<and>
   format (NewLogger options) = (if Format options = '''' then StringOutput else Format options) \<and>
   outputs (NewLogger options) =
     (if Outputs options = [] then [defaultConsoleOutput] else Outputs options) \<and>
   formatCallback (NewLogger options) = FormatCallback options \<and>
   prefix (NewLogger options) = Prefix options \<and>
   defaultConsoleOutput lvl message w =
     (if lvl \<le> Error then w\<lparr>stderr := stderr w @ message @ newline\<rparr>
      else w\<lparr>stdout := stdout w @ message @ newline\<rparr>)"
  by (simp add: NewLogger_level NewLogger_format NewLogger_outputs NewLogger_formatCallback
      NewLogger_prefix level_defs defaultConsoleOutput_def Fprint_Stderr_def Fprint_Stdout_def)

text \<open>
  C3, as stated, fails at two inputs. Options that set no level: the \<^verbatim>\<open>Level\<close> field of
  \<^verbatim>\<open>LogOptions{}\<close> is 0, which is Emergency, a valid level; the logger keeps it and does not
  take Info, so an Info message is filtered out. And a level that is not one of Emergency
  through Error, \<open>-1\<close>: the default console sink writes it to standard-error, not to
  standard-output.
\<close>

theorem unset_level_and_negative_level_counterexample:
  "Level zero_options = 0 \<and>
   level (NewLogger zero_options) = Emergency \<and>
   level (NewLogger zero_options) \<noteq> Info \<and>
   Log (json_Marshal plain_quote) (NewLogger zero_options) Info ''hello'' [] world0 = world0 \<and>
   stderr (defaultConsoleOutput (- 1) ''m'' world0) = ''m'' @ newline \<and>
   stdout (defaultConsoleOutput (- 1) ''m'' world0) = ''''"
  by (simp add: NewLogger_level zero_options_def level_defs Log_unfold defaultConsoleOutput_def
      Fprint_Stderr_def world0_def)

text \<open>
  C3 (as amended), at the options that set nothing and at a level out of range: the
  format and the sink are the defaults, level 8 becomes Info, and the default sink sends
  an Error message to standard-error and an Info message to standard-output.
\<close>

theorem NewLogger_applies_defaults_witness:
  "level (NewLogger zero_options) = Emergency \<and>
   format (NewLogger zero_options) = ''string'' \<and>
   level (NewLogger (zero_options\<lparr>Level := 8\<rparr>)) = Info \<and>
   stderr (Log (json_Marshal plain_quote) (NewLogger (zero_options\<lparr>Level := 8\<rparr>)) Error ''e'' [] world0) =
     ''[2024-05-06T07:08:09.000000001Z] [ERROR] e'' @ newline \<and>
   stdout (Log (json_Marshal plain_quote) (NewLogger (zero_options\<lparr>Level := 8\<rparr>)) Info ''i'' [] world0) =
     ''[2024-05-06T07:08:09.000000001Z] [INFO] i'' @ newline"
proof -
  have kept: "level (NewLogger zero_options) = Emergency"
    using NewLogger_applies_defaults [of zero_options, THEN conjunct1]
    by (simp add: zero_options_def level_defs)
  have text_mode: "format (NewLogger zero_options) = ''string''"
    by code_simp
  have replaced: "level (NewLogger (zero_options\<lparr>Level := 8\<rparr>)) = Info"
    by code_simp
  have err: "stderr (Log (json_Marshal plain_quote) (NewLogger (zero_options\<lparr>Level := 8\<rparr>)) Error ''e'' [] world0) =
     ''[2024-05-06T07:08:09.000000001Z] [ERROR] e'' @ newline"
    by code_simp
  have out: "stdout (Log (json_Marshal plain_quote) (NewLogger (zero_options\<lparr>Level := 8\<rparr>)) Info ''i'' [] world0) =
     ''[2024-05-06T07:08:09.000000001Z] [INFO] i'' @ newline"
    by code_simp
  show ?thesis
    using kept text_mode replaced err out by blast
qed

text \<open>
  C4 (as amended). For every emitted message in text (string) mode the formatted line is
  \<^verbatim>\<open>[prefix] [timestamp] [LEVEL] context-json message\<close>, the segments separated by single
  spaces: the prefix segment, in square brackets, is there only when the prefix is
  non-empty; the timestamp and the uppercase level name are in square brackets; the
  context segment is there only when the context map is non-empty and is what
  \<^verbatim>\<open>json.Marshal\<close> returns for the map, with no square brackets around it (and empty when
  the map cannot be encoded); the original message comes verbatim at the end.
\<close>

theorem text_line_format:
  assumes "formatCallback l = None" and "format l \<noteq> JSONOutput"
  shows "fst (formatMessage marshal l lvl message info w) =
     (if prefix l = '''' then '''' else ''['' @ prefix l @ ''] '') @
     ''['' @ clock w (ticks w) @ ''] '' @ ''['' @ LogLevel_String lvl @ '']'' @
     (if info = fmempty then '''' else '' '' @ bytes_string (marshal info)) @
     '' '' @ message"
  using assms by (rule builtin_text_line)

text \<open>
  C4, as stated, puts the context in square brackets. At the spec's own scenario (prefix
  \<^verbatim>\<open>svc\<close>, level Error, context \<^verbatim>\<open>{"code":500}\<close>, message \<^verbatim>\<open>y\<close>) the logger writes the JSON
  object bare, so the line is not the one the stated format describes.
\<close>

theorem context_not_in_square_brackets_counterexample:
  "fst (formatMessage (json_Marshal plain_quote) (NewLogger svc_options) Error ''y'' code500 world0) =
     ''[svc] [2024-05-06T07:08:09.000000001Z] [ERROR] {'' @ plain_quote ''code'' @ '':500} y'' \<and>
   spec_text_line ''svc'' ''2024-05-06T07:08:09.000000001Z'' ''ERROR''
       (Some (''{'' @ plain_quote ''code'' @ '':500}'')) ''y'' =
     ''[svc] [2024-05-06T07:08:09.000000001Z] [ERROR] [{'' @ plain_quote ''code'' @ '':500}] y'' \<and>
   fst (formatMessage (json_Marshal plain_quote) (NewLogger svc_options) Error ''y'' code500 world0) \<noteq>
     spec_text_line ''svc'' ''2024-05-06T07:08:09.000000001Z'' ''ERROR''
       (Some (''{'' @ plain_quote ''code'' @ '':500}'')) ''y''"
  by (simp add: svc_line spec_text_line_def plain_quote_def)

text \<open>
  C4 (as amended), at the same scenario, and at a logger without prefix called without
  context.
\<close>

theorem text_line_format_witness:
  "formatCallback (NewLogger svc_options) = None \<and>
   format (NewLogger svc_options) \<noteq> JSONOutput \<and>
   fst (formatMessage (json_Marshal plain_quote) (NewLogger svc_options) Error ''y'' code500 world0) =
     ''[svc] [2024-05-06T07:08:09.000000001Z] [ERROR] {'' @ plain_quote ''code'' @ '':500} y'' \<and>
   fst (formatMessage (json_Marshal plain_quote) (NewLogger (svc_options\<lparr>Prefix := ''''\<rparr>)) Info
          ''hello'' fmempty world0) =
     ''[2024-05-06T07:08:09.000000001Z] [INFO] hello''"
proof -
  have cb: "formatCallback (NewLogger svc_options) = None"
    by (simp add: svc_logger)
  have mode: "format (NewLogger svc_options) \<noteq> JSONOutput"
    by (simp add: svc_logger StringOutput_def JSONOutput_def)
  have line: "fst (formatMessage (json_Marshal plain_quote) (NewLogger svc_options) Error ''y'' code500 world0) =
     ''[svc] [2024-05-06T07:08:09.000000001Z] [ERROR] {'' @ plain_quote ''code'' @ '':500} y''"
    using text_line_format [OF cb mode, of "json_Marshal plain_quote" Error "''y''" code500 world0]
      code500_nonempty
    by (simp add: svc_logger marshal_code500 bytes_string_def world0_def LogLevel_String_def
        level_defs)
  have plain: "fst (formatMessage (json_Marshal plain_quote) (NewLogger (svc_options\<lparr>Prefix := ''''\<rparr>)) Info
          ''hello'' fmempty world0) =
     ''[2024-05-06T07:08:09.000000001Z] [INFO] hello''"
    by code_simp
  show ?thesis
    by (intro conjI) (fact cb mode line plain)+
qed

text \<open>
  C5 (as amended). For every emitted message in JSON mode the logger hands \<^verbatim>\<open>json.Marshal\<close>
  one map: every context entry, and, for each key the context does not hold, the fixed
  fields \<^verbatim>\<open>timestamp\<close>, \<^verbatim>\<open>level\<close> (the level name), \<^verbatim>\<open>message\<close> (the input string) and, only
  when the prefix is non-empty, \<^verbatim>\<open>prefix\<close>; a context key that collides with a fixed field
  replaces it. The output is the encoding of that map when the encoder succeeds, and the
  empty string when it fails.
\<close>

theorem json_output_is_encoding_of_merged_fields:
  assumes "formatCallback l = None" and "format l = JSONOutput"
  shows "\<exists>fields.
     fst (formatMessage marshal l lvl message info w) =
       (case marshal fields of Inr bytes \<Rightarrow> bytes | Inl err \<Rightarrow> '''') \<and>
     (\<forall>k. fmlookup fields k =
        (case fmlookup info k of
           Some v \<Rightarrow> Some v
         | None \<Rightarrow> fixed_field l (clock w (ticks w)) lvl message k))"
  using builtin_json_fields [OF assms] by (simp add: bytes_string_def)

text \<open>
  C5, as stated, fails for a context value that \<^verbatim>\<open>json.Marshal\<close> cannot encode: with the
  context \<^verbatim>\<open>{"ch": make(chan int)}\<close> the encoder returns an error, the logger drops it, and
  the output handed to both sinks is the empty string, which is no JSON object.
\<close>

theorem json_output_empty_for_channel_counterexample:
  "fst (formatMessage (json_Marshal plain_quote) (NewLogger json_options) Info ''hello'' chan_info world0) = '''' \<and>
   \<not> braced (fst (formatMessage (json_Marshal plain_quote) (NewLogger json_options) Info ''hello''
        chan_info world0)) \<and>
   world.more (Log (json_Marshal plain_quote) (NewLogger json_options) Info ''hello'' [chan_info] world0) =
     [Sunk 0 Info '''', Sunk 1 Info '''']"
proof -
  have out: "fst (formatMessage (json_Marshal plain_quote) (NewLogger json_options) Info ''hello'' chan_info world0) = ''''"
    by (rule json_chan_line)
  have sinks: "world.more (Log (json_Marshal plain_quote) (NewLogger json_options) Info ''hello'' [chan_info] world0) =
     [Sunk 0 Info '''', Sunk 1 Info '''']"
    by code_simp
  show ?thesis
    using sinks by (simp add: out braced_def)
qed

text \<open>
  C5 (as amended), at the spec's scenario: JSON mode, no prefix, \<^verbatim>\<open>Info("hello", {"k":"v"})\<close>
  gives \<^verbatim>\<open>{"k":"v","level":"INFO","message":"hello","timestamp":"..."}\<close>.
\<close>

theorem json_output_is_encoding_of_merged_fields_witness:
  "formatCallback (NewLogger json_options) = None \<and>
   format (NewLogger json_options) = JSONOutput \<and>
   (\<exists>fields.
      fst (formatMessage (json_Marshal plain_quote) (NewLogger json_options) Info ''hello'' kv_info world0) =
        (case json_Marshal plain_quote fields of Inr bytes \<Rightarrow> bytes | Inl err \<Rightarrow> '''') \<and>
      fmlookup fields ''k'' = Some (GoString ''v'') \<and>
      fmlookup fields ''level'' = Some (GoString ''INFO'') \<and>
      fmlookup fields ''message'' = Some (GoString ''hello'') \<and>
      fmlookup fields ''prefix'' = None) \<and>
   fst (formatMessage (json_Marshal plain_quote) (NewLogger json_options) Info ''hello'' kv_info world0) =
     ''{'' @ plain_quote ''k'' @ '':'' @ plain_quote ''v'' @ '','' @
     plain_quote ''level'' @ '':'' @ plain_quote ''INFO'' @ '','' @
     plain_quote ''message'' @ '':'' @ plain_quote ''hello'' @ '','' @
     plain_quote ''timestamp'' @ '':'' @ plain_quote ''2024-05-06T07:08:09.000000001Z'' @ ''}''"
proof -
  have cb: "formatCallback (NewLogger json_options) = None"
    by (simp add: json_logger)
  have mode: "format (NewLogger json_options) = JSONOutput"
    by (simp add: json_logger)
  obtain fields where
    out: "fst (formatMessage (json_Marshal plain_quote) (NewLogger json_options) Info ''hello'' kv_info world0) =
        (case json_Marshal plain_quote fields of Inr bytes \<Rightarrow> bytes | Inl err \<Rightarrow> '''')"
    and look: "\<And>k. fmlookup fields k =
        (case fmlookup kv_info k of
           Some v \<Rightarrow> Some v
         | None \<Rightarrow> fixed_field (NewLogger json_options) (clock world0 (ticks world0)) Info ''hello'' k)"
    using json_output_is_encoding_of_merged_fields
      [OF cb mode, of "json_Marshal plain_quote" Info "''hello''" kv_info world0]
    by blast
  have "fmlookup fields ''k'' = Some (GoString ''v'')"
    and "fmlookup fields ''level'' = Some (GoString ''INFO'')"
    and "fmlookup fields ''message'' = Some (GoString ''hello'')"
    and "fmlookup fields ''prefix'' = None"
    by (simp_all add: look kv_info_def fixed_field_def json_logger LogLevel_String_def level_defs)
  with out have ex: "\<exists>fields.
      fst (formatMessage (json_Marshal plain_quote) (NewLogger json_options) Info ''hello'' kv_info world0) =
        (case json_Marshal plain_quote fields of Inr bytes \<Rightarrow> bytes | Inl err \<Rightarrow> '''') \<and>
      fmlookup fields ''k'' = Some (GoString ''v'') \<and>
      fmlookup fields ''level'' = Some (GoString ''INFO'') \<and>
      fmlookup fields ''message'' = Some (GoString ''hello'') \<and>
      fmlookup fields ''prefix'' = None"
    by blast
  show ?thesis
    by (intro conjI) (fact cb mode ex json_kv_line)+
qed

text \<open>
  C6. For every logger constructed with a custom format callback and every emitted call,
  formatting is the callback and nothing else: the result does not depend on the encoder,
  the format or the prefix, the string passed to the sinks is exactly what the callback
  returns, and the callback receives the context map as passed, an empty map when the
  caller passed none. With a recording callback and recording outputs the whole effect of
  an emitted call is one formatter event and one event for each output: the clock is not
  read.
\<close>

theorem custom_callback_replaces_builtin_format:
  assumes "FormatCallback options = Some callback"
  shows "formatMessage marshal (NewLogger options) lvl message info w = callback lvl message info w \<and>
         Log marshal (NewLogger options) lvl message ctx w =
           (if shouldLog (NewLogger options) lvl
            then run_outputs (outputs (NewLogger options)) lvl
                   (fst (callback lvl message (first_info ctx) w))
                   (snd (callback lvl message (first_info ctx) w))
            else w) \<and>
         first_info [] = fmempty \<and> first_info (info # rest) = info \<and>
         (callback = recording_format f \<longrightarrow> Outputs options = recorders (Suc n) \<longrightarrow>
            shouldLog (NewLogger options) lvl \<longrightarrow>
            Log marshal (NewLogger options) lvl message ctx w =
              world.more_update
                (\<lambda>events. events @ Formatted lvl message (first_info ctx) #
                   sunk_by_all (Suc n) lvl (f lvl message (first_info ctx))) w)"
proof -
  have cb: "formatCallback (NewLogger options) = Some callback"
    using assms by (simp add: NewLogger_formatCallback)
  have fmt: "formatMessage marshal (NewLogger options) lvl message i w = callback lvl message i w" for i
    using cb by (rule custom_format)
  have log: "Log marshal (NewLogger options) lvl message ctx w =
           (if shouldLog (NewLogger options) lvl
            then run_outputs (outputs (NewLogger options)) lvl
                   (fst (callback lvl message (first_info ctx) w))
                   (snd (callback lvl message (first_info ctx) w))
            else w)"
    by (simp add: Log_unfold shouldLog_def fmt)
  have first: "first_info [] = fmempty \<and> first_info (info # rest) = info"
    by (simp add: first_info_def)
  have rec: "Log marshal (NewLogger options) lvl message ctx w =
              world.more_update
                (\<lambda>events. events @ Formatted lvl message (first_info ctx) #
                   sunk_by_all (Suc n) lvl (f lvl message (first_info ctx))) w"
    if "callback = recording_format f" and "Outputs options = recorders (Suc n)"
      and "shouldLog (NewLogger options) lvl"
  proof -
    have "outputs (NewLogger options) = recorders (Suc n)"
      using that(2) recorders_nonempty [of n] by (simp add: NewLogger_outputs)
    then show ?thesis
      using that(1,3) by (simp add: log run_recorders recording_format_def)
  qed
  show ?thesis
    using fmt log first rec by blast
qed

text \<open>
  C6, at the logger of \<^verbatim>\<open>TestCustomFormatCallback\<close>: \<^verbatim>\<open>Info("test message")\<close> with no context
  gives the callback the empty map, both outputs receive \<^verbatim>\<open>CUSTOM: test message\<close>, and the
  clock has not been read.
\<close>

theorem custom_callback_replaces_builtin_format_witness:
  "FormatCallback custom_options = Some (recording_format custom_text) \<and>
   Outputs custom_options = recorders (Suc 1) \<and>
   shouldLog (NewLogger custom_options) Info \<and>
   world.more (Log (json_Marshal plain_quote) (NewLogger custom_options) Info ''test message'' [] world0) =
     [Formatted Info ''test message'' fmempty,
      Sunk 0 Info ''CUSTOM: test message'', Sunk 1 Info ''CUSTOM: test message''] \<and>
   ticks (Log (json_Marshal plain_quote) (NewLogger custom_options) Info ''test message'' [] world0) = 0"
proof -
  have cb: "FormatCallback custom_options = Some (recording_format custom_text)"
    by (simp add: custom_options_def)
  have outs: "Outputs custom_options = recorders (Suc 1)"
    by (simp add: custom_options_def numeral_2_eq_2)
  have emit: "shouldLog (NewLogger custom_options) Info"
    by (simp add: shouldLog_def custom_logger level_defs)
  have run: "Log (json_Marshal plain_quote) (NewLogger custom_options) Info ''test message'' [] world0 =
      world.more_update
        (\<lambda>events. events @ Formatted Info ''test message'' (first_info []) #
           sunk_by_all (Suc 1) Info (custom_text Info ''test message'' (first_info []))) world0"
    using custom_callback_replaces_builtin_format
      [OF cb, where f = custom_text and n = 1 and lvl = Info and marshal = "json_Marshal plain_quote"
         and message = "''test message''" and ctx = "[]" and w = world0]
      outs emit
    by blast
  have start: "world.more world0 = []" "ticks world0 = 0"
    by (simp_all add: world0_def)
  have events: "world.more (Log (json_Marshal plain_quote) (NewLogger custom_options) Info ''test message'' [] world0) =
     [Formatted Info ''test message'' fmempty,
      Sunk 0 Info ''CUSTOM: test message'', Sunk 1 Info ''CUSTOM: test message'']"
    by (simp add: run start first_info_def sunk_by_all_def custom_text_def)
  have unread: "ticks (Log (json_Marshal plain_quote) (NewLogger custom_options) Info ''test message'' [] world0) = 0"
    by (simp add: run start)
  show ?thesis
    by (intro conjI) (fact cb outs emit events unread)+
qed

text \<open>
  C7. For every level-filter sink with threshold \<open>T\<close> and every call made to it, the
  wrapped sink is invoked if and only if the level is at most \<open>T\<close>; over any sequence of
  calls, a wrapped recording output holds exactly the calls whose level is at most \<open>T\<close>, in
  the order they were made, so it never receives a level above \<open>T\<close>.
\<close>

theorem level_filter_forwards_iff_level_le_threshold:
  "LevelFilterOutput T output lvl message w = (if lvl \<le> T then output lvl message w else w) \<and>
   world.more (feed (LevelFilterOutput T (recording_output i)) calls v) =
     world.more v @
       map (\<lambda>(lvl, message). Sunk i lvl message) (filter (\<lambda>(lvl, message). lvl \<le> T) calls)"
proof -
  have "world.more (feed (LevelFilterOutput T (recording_output i)) calls v) =
     world.more v @
       map (\<lambda>(lvl, message). Sunk i lvl message) (filter (\<lambda>(lvl, message). lvl \<le> T) calls)"
    unfolding feed_def
    by (induction calls arbitrary: v)
       (auto simp: LevelFilterOutput_def recording_output_def)
  then show ?thesis
    by (simp add: LevelFilterOutput_def)
qed

text \<open>
  C7, at threshold Error: of four calls at Debug, Error, Warning and Emergency the wrapped
  output sees the second and the fourth.
\<close>

theorem level_filter_forwards_iff_level_le_threshold_witness:
  "world.more (feed (LevelFilterOutput Error (recording_output 0))
      [(Debug, ''a''), (Error, ''b''), (Warning, ''c''), (Emergency, ''d'')] world0) =
     [Sunk 0 Error ''b'', Sunk 0 Emergency ''d'']"
  using level_filter_forwards_iff_level_le_threshold
    [where T = Error and i = 0 and v = world0
       and calls = "[(Debug, ''a''), (Error, ''b''), (Warning, ''c''), (Emergency, ''d'')]",
     THEN conjunct2]
  by (simp add: level_defs world0_def)

text \<open>
  C8. For every multiplex sink and every call made to it, each wrapped sink is invoked
  exactly once with that level and message, in the order the sinks were registered: the
  call is the wrapped sinks applied one after the other from the front of the list, and
  wrapped recording outputs \<open>0\<close> to \<open>n - 1\<close> add one event each, in that order.
\<close>

theorem multi_output_invokes_each_once_in_order:
  "MultiOutput outs lvl message w = fold (\<lambda>output. output lvl message) outs w \<and>
   MultiOutput (recorders n) lvl message v =
     world.more_update (\<lambda>events. events @ map (\<lambda>i. Sunk i lvl message) [0..<n]) v"
proof
  show "MultiOutput outs lvl message w = fold (\<lambda>output. output lvl message) outs w"
    unfolding MultiOutput_def by (rule run_outputs_fold)
next
  have "MultiOutput (recorders n) lvl message v = run_outputs (recorders n) lvl message v"
    by (simp add: MultiOutput_def)
  also have "\<dots> = world.more_update (\<lambda>events. events @ sunk_by_all n lvl message) v"
    by (rule run_recorders)
  finally show "MultiOutput (recorders n) lvl message v =
     world.more_update (\<lambda>events. events @ map (\<lambda>i. Sunk i lvl message) [0..<n]) v"
    by (simp add: sunk_by_all_def)
qed

text \<open>C8, for a console sink and a recording output behind one multiplex sink.\<close>

theorem multi_output_invokes_each_once_in_order_witness:
  "MultiOutput [ConsoleOutput, recording_output 1] Warning ''m'' world0 =
     world0\<lparr>stdout := ''m'' @ newline, world.more := [Sunk 1 Warning ''m'']\<rparr>"
  using multi_output_invokes_each_once_in_order
    [where outs = "[ConsoleOutput, recording_output 1]" and lvl = Warning and message = "''m''"
       and w = world0, THEN conjunct1]
  by (simp add: ConsoleOutput_def recording_output_def Fprint_Stdout_def level_defs world0_def)

text \<open>
  C9. \<^verbatim>\<open>FileOutput\<close> opens or creates the named file in append mode exactly once (one new
  entry in the table of open files, a missing file created empty, an existing one left as
  it is) and returns a sink whose every call appends the message and a newline to that
  file and opens nothing further; it returns an error and no sink, and leaves the world as
  it was, exactly when the file can neither be opened nor created.
\<close>

theorem file_output_opens_once_and_appends:
  "(files w filename = Unopenable \<longrightarrow>
      FileOutput filename w = (Inl (FailedToOpenLogFile filename (PathError filename)), w)) \<and>
   (files w filename \<noteq> Unopenable \<longrightarrow>
      (\<exists>sink. FileOutput filename w = (Inr sink, snd (os_OpenFile_append filename w)) \<and>
         opened (snd (FileOutput filename w)) = opened w @ [filename] \<and>
         files (snd (FileOutput filename w)) =
           (files w)(filename := (case files w filename of Absent \<Rightarrow> Regular '''' | node \<Rightarrow> node)) \<and>
         (\<forall>lvl message v contents. files v filename = Regular contents \<longrightarrow>
            sink lvl message v =
              v\<lparr>files := (files v)(filename := Regular (contents @ message @ newline))\<rparr>))) \<and>
   (isl (fst (FileOutput filename w)) \<longleftrightarrow> isl (fst (os_OpenFile_append filename w))) \<and>
   (isl (fst (os_OpenFile_append filename w)) \<longleftrightarrow> files w filename = Unopenable)"
  by (cases "files w filename")
     (auto simp: FileOutput_def os_OpenFile_append_def Fprintln_File_def)

text \<open>
  C9, on a path that cannot be opened and on a file that does not exist yet: the first
  gives the error and no change; the second is created, one handle is open, and two calls
  of the sink leave two lines in the file.
\<close>

theorem file_output_opens_once_and_appends_witness:
  "files world0 ''/proc/log'' = Unopenable \<and>
   FileOutput ''/proc/log'' world0 =
     (Inl (FailedToOpenLogFile ''/proc/log'' (PathError ''/proc/log'')), world0) \<and>
   files world0 ''app.log'' \<noteq> Unopenable \<and>
   (\<exists>sink. fst (FileOutput ''app.log'' world0) = Inr sink \<and>
      opened (snd (FileOutput ''app.log'' world0)) = [''app.log''] \<and>
      files (snd (FileOutput ''app.log'' world0)) ''app.log'' = Regular '''' \<and>
      files (sink Info ''b'' (sink Error ''a'' (snd (FileOutput ''app.log'' world0)))) ''app.log'' =
        Regular (''a'' @ newline @ ''b'' @ newline) \<and>
      opened (sink Info ''b'' (sink Error ''a'' (snd (FileOutput ''app.log'' world0)))) = [''app.log''])"
proof -
  have closed: "files world0 ''/proc/log'' = Unopenable"
    by (simp add: world0_def)
  have fresh: "files world0 ''app.log'' \<noteq> Unopenable" "files world0 ''app.log'' = Absent"
      "opened world0 = []"
    by (simp_all add: world0_def)
  have failed: "FileOutput ''/proc/log'' world0 =
     (Inl (FailedToOpenLogFile ''/proc/log'' (PathError ''/proc/log'')), world0)"
    using file_output_opens_once_and_appends [of world0 "''/proc/log''"] closed by blast
  obtain sink where
    made: "FileOutput ''app.log'' world0 = (Inr sink, snd (os_OpenFile_append ''app.log'' world0))"
    and table: "opened (snd (FileOutput ''app.log'' world0)) = opened world0 @ [''app.log'']"
    and fs: "files (snd (FileOutput ''app.log'' world0)) =
           (files world0)(''app.log'' := (case files world0 ''app.log'' of Absent \<Rightarrow> Regular '''' | node \<Rightarrow> node))"
    and append: "\<And>lvl message v contents. files v ''app.log'' = Regular contents \<Longrightarrow>
            sink lvl message v =
              v\<lparr>files := (files v)(''app.log'' := Regular (contents @ message @ newline))\<rparr>"
    using file_output_opens_once_and_appends [of world0 "''app.log''"] fresh(1) by blast
  let ?w = "snd (FileOutput ''app.log'' world0)"
  have created: "files ?w ''app.log'' = Regular ''''"
    by (simp add: fs fresh)
  have one: "sink Error ''a'' ?w = ?w\<lparr>files := (files ?w)(''app.log'' := Regular ('''' @ ''a'' @ newline))\<rparr>"
    using created by (rule append)
  have "files (sink Error ''a'' ?w) ''app.log'' = Regular (''a'' @ newline)"
    by (simp add: one)
  then have two: "sink Info ''b'' (sink Error ''a'' ?w) =
      (sink Error ''a'' ?w)\<lparr>files := (files (sink Error ''a'' ?w))
         (''app.log'' := Regular ((''a'' @ newline) @ ''b'' @ newline))\<rparr>"
    by (rule append)
  have lines: "files (sink Info ''b'' (sink Error ''a'' ?w)) ''app.log'' =
      Regular (''a'' @ newline @ ''b'' @ newline)"
    by (simp add: two)
  have "opened (sink Info ''b'' (sink Error ''a'' ?w)) = opened (sink Error ''a'' ?w)"
    by (simp add: two)
  also have "\<dots> = opened ?w"
    by (simp add: one)
  also have "\<dots> = [''app.log'']"
    by (simp add: table fresh)
  finally have handles: "opened (sink Info ''b'' (sink Error ''a'' ?w)) = [''app.log'']" .
  have "fst (FileOutput ''app.log'' world0) = Inr sink"
    by (simp add: made)
  moreover have "opened ?w = [''app.log'']"
    by (simp add: table fresh)
  ultimately have ex: "\<exists>sink. fst (FileOutput ''app.log'' world0) = Inr sink \<and>
      opened (snd (FileOutput ''app.log'' world0)) = [''app.log''] \<and>
      files (snd (FileOutput ''app.log'' world0)) ''app.log'' = Regular '''' \<and>
      files (sink Info ''b'' (sink Error ''a'' (snd (FileOutput ''app.log'' world0)))) ''app.log'' =
        Regular (''a'' @ newline @ ''b'' @ newline) \<and>
      opened (sink Info ''b'' (sink Error ''a'' (snd (FileOutput ''app.log'' world0)))) = [''app.log'']"
    using created lines handles by blast
  show ?thesis
    by (intro conjI) (fact closed failed fresh(1) ex)+
qed

text \<open>
  C10 (as amended). Levels are not validated at call time: for every level below 0 and
  every logger whose threshold is a valid level, the filter lets the call through and
  \<^verbatim>\<open>Log\<close> formats and dispatches it; the level's name is \<^verbatim>\<open>UNKNOWN\<close>, which the built-in text
  format puts in the level brackets and the built-in JSON format stores under \<^verbatim>\<open>level\<close>
  (unless the context holds that key). A custom format callback is handed the level and
  decides the output itself.
\<close>

theorem negative_level_is_emitted_as_unknown:
  assumes "lvl < 0" and "Emergency \<le> level l" and "level l \<le> Debug"
  shows "shouldLog l lvl \<and> LogLevel_String lvl = ''UNKNOWN'' \<and>
     Log marshal l lvl message ctx w =
       run_outputs (outputs l) lvl
         (fst (formatMessage marshal l lvl message (first_info ctx) w))
         (snd (formatMessage marshal l lvl message (first_info ctx) w)) \<and>
     (formatCallback l = None \<longrightarrow> format l \<noteq> JSONOutput \<longrightarrow>
        fst (formatMessage marshal l lvl message info w) =
          (if prefix l = '''' then '''' else ''['' @ prefix l @ ''] '') @
          ''['' @ clock w (ticks w) @ ''] [UNKNOWN]'' @
          (if info = fmempty then '''' else '' '' @ bytes_string (marshal info)) @
          '' '' @ message) \<and>
     (formatCallback l = None \<longrightarrow> format l = JSONOutput \<longrightarrow>
        (\<exists>fields. fst (formatMessage marshal l lvl message info w) = bytes_string (marshal fields) \<and>
           fmlookup fields ''level'' =
             (case fmlookup info ''level'' of
                Some v \<Rightarrow> Some v | None \<Rightarrow> Some (GoString ''UNKNOWN'')))) \<and>
     (\<forall>callback. formatCallback l = Some callback \<longrightarrow>
        formatMessage marshal l lvl message info w = callback lvl message info w)"
proof -
  have le: "lvl \<le> level l"
    using assms by (simp add: level_defs)
  have name: "LogLevel_String lvl = ''UNKNOWN''"
    using assms(1) by (rule unknown_name)
  have json: "\<exists>fields. fst (formatMessage marshal l lvl message info w) = bytes_string (marshal fields) \<and>
           fmlookup fields ''level'' =
             (case fmlookup info ''level'' of
                Some v \<Rightarrow> Some v | None \<Rightarrow> Some (GoString ''UNKNOWN''))"
    if cb: "formatCallback l = None" and js: "format l = JSONOutput"
  proof -
    obtain fields where f: "fst (formatMessage marshal l lvl message info w) = bytes_string (marshal fields)"
      and k: "\<And>k. fmlookup fields k =
        (case fmlookup info k of
           Some v \<Rightarrow> Some v
         | None \<Rightarrow> fixed_field l (clock w (ticks w)) lvl message k)"
      using builtin_json_fields [OF cb js] by blast
    have "fmlookup fields ''level'' =
             (case fmlookup info ''level'' of
                Some v \<Rightarrow> Some v | None \<Rightarrow> Some (GoString ''UNKNOWN''))"
      by (simp add: k fixed_field_def name split: option.splits)
    with f show ?thesis by blast
  qed
  show ?thesis
    using le name json by (simp add: shouldLog_def Log_unfold builtin_text_line custom_format)
qed

text \<open>
  C10, as stated, fails for a logger with a custom format callback: at level \<open>-1\<close> the
  logger of \<^verbatim>\<open>TestCustomFormatCallback\<close> (threshold Debug) emits the message, and what both
  outputs receive is the callback's string, in which \<^verbatim>\<open>UNKNOWN\<close> does not occur.
\<close>

theorem custom_callback_output_without_unknown_counterexample:
  "(- 1 :: int) < 0 \<and> Emergency \<le> level (NewLogger custom_options) \<and>
   level (NewLogger custom_options) \<le> Debug \<and>
   world.more (Log (json_Marshal plain_quote) (NewLogger custom_options) (- 1) ''y'' [] world0) =
     [Formatted (- 1) ''y'' fmempty, Sunk 0 (- 1) ''CUSTOM: y'', Sunk 1 (- 1) ''CUSTOM: y''] \<and>
   \<not> occurs_in ''UNKNOWN'' ''CUSTOM: y''"
proof -
  have range: "Emergency \<le> level (NewLogger custom_options)"
      "level (NewLogger custom_options) \<le> Debug"
    by (simp_all add: custom_logger level_defs)
  have events: "world.more (Log (json_Marshal plain_quote) (NewLogger custom_options) (- 1) ''y'' [] world0) =
     [Formatted (- 1) ''y'' fmempty, Sunk 0 (- 1) ''CUSTOM: y'', Sunk 1 (- 1) ''CUSTOM: y'']"
    by (simp add: Log_unfold custom_logger custom_format recording_format_def run_recorders
        first_info_def sunk_by_all_def numeral_2_eq_2 custom_text_def level_defs world0_def)
  have absent: "\<not> occurs_in ''UNKNOWN'' ''CUSTOM: y''"
    by simp
  show ?thesis
    using range events absent by simp
qed

text \<open>
  C10, at level \<open>-1\<close> and the logger with threshold Error and prefix \<^verbatim>\<open>svc\<close>: both outputs
  receive the line with \<^verbatim>\<open>[UNKNOWN]\<close>.
\<close>

theorem negative_level_is_emitted_as_unknown_witness:
  "(- 1 :: int) < 0 \<and> Emergency \<le> level (NewLogger svc_options) \<and>
   level (NewLogger svc_options) \<le> Debug \<and>
   shouldLog (NewLogger svc_options) (- 1) \<and>
   world.more (Log (json_Marshal plain_quote) (NewLogger svc_options) (- 1) ''y'' [] world0) =
     [Sunk 0 (- 1) ''[svc] [2024-05-06T07:08:09.000000001Z] [UNKNOWN] y'',
      Sunk 1 (- 1) ''[svc] [2024-05-06T07:08:09.000000001Z] [UNKNOWN] y'']"
proof -
  have neg: "(- 1 :: int) < 0"
    by simp
  have lo: "Emergency \<le> level (NewLogger svc_options)"
    and hi: "level (NewLogger svc_options) \<le> Debug"
    by (simp_all add: svc_logger level_defs)
  note fact = negative_level_is_emitted_as_unknown
    [OF neg lo hi, where marshal = "json_Marshal plain_quote" and message = "''y''"
       and ctx = "[]" and w = world0]
  have pass: "shouldLog (NewLogger svc_options) (- 1)"
    using fact by (rule conjunct1)
  have run: "Log (json_Marshal plain_quote) (NewLogger svc_options) (- 1) ''y'' [] world0 =
       run_outputs (outputs (NewLogger svc_options)) (- 1)
         (fst (formatMessage (json_Marshal plain_quote) (NewLogger svc_options) (- 1) ''y'' (first_info []) world0))
         (snd (formatMessage (json_Marshal plain_quote) (NewLogger svc_options) (- 1) ''y'' (first_info []) world0))"
    using fact by (rule conjunct2 [THEN conjunct2, THEN conjunct1])
  have start: "world.more world0 = []"
    by (simp add: world0_def)
  have cb: "formatCallback (NewLogger svc_options) = None" "outputs (NewLogger svc_options) = recorders 2"
    by (simp_all add: svc_logger)
  have events: "world.more (Log (json_Marshal plain_quote) (NewLogger svc_options) (- 1) ''y'' [] world0) =
     [Sunk 0 (- 1) ''[svc] [2024-05-06T07:08:09.000000001Z] [UNKNOWN] y'',
      Sunk 1 (- 1) ''[svc] [2024-05-06T07:08:09.000000001Z] [UNKNOWN] y'']"
    by (simp add: run cb run_recorders builtin_format_world first_info_def svc_unknown_line
        sunk_by_all_def numeral_2_eq_2 start)
  show ?thesis
    by (intro conjI) (fact neg lo hi pass events)+
qed

end
